theory Spec2Isabelle
  imports Complex_Main
begin

section \<open>NumPy floating-point values\<close>

text \<open>
  The arrays of \<^verbatim>\<open>trax/rl/policy_tasks.py\<close> hold NumPy floats. An entry is modelled as
  a finite real number or one of the IEEE special values \<open>inf\<close>, \<open>-inf\<close>, \<open>nan\<close>.
  Arithmetic on finite entries is exact: rounding and overflow are outside the model, and
  the two signed zeros are one value. Arithmetic with a special value follows IEEE 754 as
  NumPy implements it: no operation raises, an invalid operation (\<open>inf - inf\<close>,
  \<open>0 * inf\<close>, \<open>0 / 0\<close>, \<open>inf / inf\<close>, the square root of a negative number)
  gives \<open>nan\<close>, and \<open>nan\<close> propagates.
\<close>

datatype npfloat = Fin real | PInf | NInf | NaN

fun np_neg :: "npfloat \<Rightarrow> npfloat" where
  "np_neg (Fin x) = Fin (- x)"
| "np_neg PInf = NInf"
| "np_neg NInf = PInf"
| "np_neg NaN = NaN"

fun np_add :: "npfloat \<Rightarrow> npfloat \<Rightarrow> npfloat" where
  "np_add (Fin x) (Fin y) = Fin (x + y)"
| "np_add NaN y = NaN"
| "np_add x NaN = NaN"
| "np_add PInf NInf = NaN"
| "np_add NInf PInf = NaN"
| "np_add PInf y = PInf"
| "np_add x PInf = PInf"
| "np_add NInf y = NInf"
| "np_add x NInf = NInf"

definition np_sub :: "npfloat \<Rightarrow> npfloat \<Rightarrow> npfloat" where
  "np_sub x y = np_add x (np_neg y)"

fun np_mul :: "npfloat \<Rightarrow> npfloat \<Rightarrow> npfloat" where
  "np_mul (Fin x) (Fin y) = Fin (x * y)"
| "np_mul NaN y = NaN"
| "np_mul x NaN = NaN"
| "np_mul PInf (Fin y) = (if y = 0 then NaN else if 0 < y then PInf else NInf)"
| "np_mul NInf (Fin y) = (if y = 0 then NaN else if 0 < y then NInf else PInf)"
| "np_mul (Fin x) PInf = (if x = 0 then NaN else if 0 < x then PInf else NInf)"
| "np_mul (Fin x) NInf = (if x = 0 then NaN else if 0 < x then NInf else PInf)"
| "np_mul PInf PInf = PInf"
| "np_mul PInf NInf = NInf"
| "np_mul NInf PInf = NInf"
| "np_mul NInf NInf = PInf"

fun np_div :: "npfloat \<Rightarrow> npfloat \<Rightarrow> npfloat" where
  "np_div (Fin x) (Fin y) =
     (if y = 0 then (if x = 0 then NaN else if 0 < x then PInf else NInf)
      else Fin (x / y))"
| "np_div NaN y = NaN"
| "np_div x NaN = NaN"
| "np_div (Fin x) PInf = Fin 0"
| "np_div (Fin x) NInf = Fin 0"
| "np_div PInf (Fin y) = (if 0 \<le> y then PInf else NInf)"
| "np_div NInf (Fin y) = (if 0 \<le> y then NInf else PInf)"
| "np_div PInf PInf = NaN"
| "np_div PInf NInf = NaN"
| "np_div NInf PInf = NaN"
| "np_div NInf NInf = NaN"

fun np_sqrt :: "npfloat \<Rightarrow> npfloat" where
  "np_sqrt (Fin x) = (if x < 0 then NaN else Fin (sqrt x))"
| "np_sqrt PInf = PInf"
| "np_sqrt NInf = NaN"
| "np_sqrt NaN = NaN"

text \<open>\<^verbatim>\<open>np.sum\<close> of all entries; the sum of no entries is \<open>0.0\<close>.\<close>

fun np_sum :: "npfloat list \<Rightarrow> npfloat" where
  "np_sum [] = Fin 0"
| "np_sum (x # xs) = np_add x (np_sum xs)"

fun is_finite :: "npfloat \<Rightarrow> bool" where
  "is_finite (Fin x) = True"
| "is_finite PInf = False"
| "is_finite NInf = False"
| "is_finite NaN = False"


section \<open>Arrays\<close>

text \<open>
  An \<^verbatim>\<open>ndarray\<close> is its shape and its entries in row-major (C) order. Every NumPy
  array has as many entries as the product of its shape (\<open>wellformed\<close>). Python scalars and
  zero-dimensional arrays have the shape \<open>[]\<close> and one entry. All arrays are float
  arrays; integer and boolean dtypes are not distinguished.
\<close>

record ndarray =
  shape :: "nat list"
  data :: "npfloat list"

definition wellformed :: "ndarray \<Rightarrow> bool" where
  "wellformed a = (length (data a) = prod_list (shape a))"

text \<open>\<^verbatim>\<open>np.mean(a)\<close> with no axis: the sum of all entries over their number.\<close>

definition np_mean :: "ndarray \<Rightarrow> npfloat" where
  "np_mean a = np_div (np_sum (data a)) (Fin (real (length (data a))))"

text \<open>
  \<^verbatim>\<open>np.std(a)\<close> with no axis and \<open>ddof = 0\<close>: the square root of the mean of the
  squared deviations from the mean (the population standard deviation).
\<close>

definition np_std :: "ndarray \<Rightarrow> npfloat" where
  "np_std a =
     (let arrmean = np_mean a;
          x = map (\<lambda>v. np_sub v arrmean) (data a);
          x2 = map (\<lambda>v. np_mul v v) x
      in np_sqrt (np_div (np_sum x2) (Fin (real (length (data a))))))"

text \<open>The in-place operators \<^verbatim>\<open>a -= s\<close> and \<^verbatim>\<open>a /= s\<close> with a scalar \<open>s\<close>.\<close>

definition isub :: "ndarray \<Rightarrow> npfloat \<Rightarrow> ndarray" where
  "isub a s = a\<lparr>data := map (\<lambda>v. np_sub v s) (data a)\<rparr>"

definition idiv :: "ndarray \<Rightarrow> npfloat \<Rightarrow> ndarray" where
  "idiv a s = a\<lparr>data := map (\<lambda>v. np_div v s) (data a)\<rparr>"

text \<open>
  The position of the entry with multi-index \<open>idx\<close> in the row-major data of an array
  of shape \<open>s\<close>, and the multi-index of the entry at position \<open>n\<close>.
\<close>

fun ravel :: "nat list \<Rightarrow> nat list \<Rightarrow> nat" where
  "ravel (d # ds) (i # idx) = i * prod_list ds + ravel ds idx"
| "ravel s idx = 0"

fun unravel :: "nat list \<Rightarrow> nat \<Rightarrow> nat list" where
  "unravel [] n = []"
| "unravel (d # ds) n = (n div prod_list ds) # unravel ds (n mod prod_list ds)"

definition item :: "ndarray \<Rightarrow> nat list \<Rightarrow> npfloat" where
  "item a idx = data a ! ravel (shape a) idx"

text \<open>
  NumPy broadcasting. Two shapes are aligned at their last axes; two aligned axes are
  compatible when they are equal or one of them is 1, and a missing axis counts as 1.
  \<open>bc_rev\<close> works on the reversed shapes. An operand's entry for a multi-index of the
  result drops the leading axes the operand lacks and reads index 0 along its axes of
  length 1.
\<close>

fun bc_rev :: "nat list \<Rightarrow> nat list \<Rightarrow> nat list option" where
  "bc_rev [] ys = Some ys"
| "bc_rev xs [] = Some xs"
| "bc_rev (x # xs) (y # ys) =
     (if x = y \<or> y = 1 then map_option (Cons x) (bc_rev xs ys)
      else if x = 1 then map_option (Cons y) (bc_rev xs ys)
      else None)"

definition broadcast_shapes :: "nat list \<Rightarrow> nat list \<Rightarrow> nat list option" where
  "broadcast_shapes s1 s2 = map_option rev (bc_rev (rev s1) (rev s2))"

definition bc_index :: "nat list \<Rightarrow> nat list \<Rightarrow> nat" where
  "bc_index s idx =
     ravel s (map2 (\<lambda>d i. if d = 1 then 0 else i) s (drop (length idx - length s) idx))"

definition bc_item :: "ndarray \<Rightarrow> nat list \<Rightarrow> npfloat" where
  "bc_item a idx = data a ! bc_index (shape a) idx"

text \<open>
  The product \<^verbatim>\<open>a * b\<close> of two arrays: \<open>None\<close> stands for NumPy's
  \<^verbatim>\<open>ValueError: operands could not be broadcast together\<close>.
\<close>

definition np_multiply :: "ndarray \<Rightarrow> ndarray \<Rightarrow> ndarray option" where
  "np_multiply a b =
     (case broadcast_shapes (shape a) (shape b) of
        None \<Rightarrow> None
      | Some s \<Rightarrow>
          Some \<lparr>shape = s,
                data = map (\<lambda>n. np_mul (bc_item a (unravel s n)) (bc_item b (unravel s n)))
                         [0..<prod_list s]\<rparr>)"

text \<open>
  The basic slice \<^verbatim>\<open>a[:, :k]\<close>: the first \<open>k\<close> indices of axis 1 (all of them when the
  axis is shorter). \<open>None\<close> stands for the \<^verbatim>\<open>IndexError\<close> of an array with fewer than
  two axes.
\<close>

definition slice_axis1 :: "ndarray \<Rightarrow> nat \<Rightarrow> ndarray option" where
  "slice_axis1 a k =
     (case shape a of
        b # t # rest \<Rightarrow>
          Some \<lparr>shape = b # min k t # rest,
                data = concat (map (\<lambda>i. take (min k t * prod_list rest)
                                           (drop (i * (t * prod_list rest)) (data a)))
                                   [0..<b])\<rparr>
      | _ \<Rightarrow> None)"


section \<open>The trajectory batch and the training task\<close>

text \<open>
  \<^verbatim>\<open>trax.rl.task.TrajectoryNp\<close>: the fields of a batch of trajectory slices that
  \<^verbatim>\<open>policy_batch\<close> reads.
\<close>

record TrajectoryNp =
  observations :: ndarray
  actions :: ndarray
  rewards :: ndarray
  returns :: ndarray
  dones :: ndarray
  mask_np :: ndarray

text \<open>
  The object an advantage estimator returns. The estimator receives \<open>rewards\<close>,
  \<open>returns\<close>, \<open>dones\<close> and \<open>values\<close>; what it returns is a newly allocated array or one
  of its float arguments itself (a view of part of an argument is not modelled). The
  in-place normalization writes to that object, so the difference is observable: a
  write to \<open>rewards\<close> or \<open>returns\<close> changes the batch, a write to a new array or to the
  local copy \<open>values\<close> does not.
\<close>

datatype array_ref = Fresh ndarray | ArgRewards | ArgReturns | ArgValues

text \<open>The attributes of \<^verbatim>\<open>PolicyTrainTask\<close> that \<^verbatim>\<open>policy_batch\<close> uses.\<close>

record PolicyTrainTask =
  value_fn :: "TrajectoryNp \<Rightarrow> ndarray"
  advantage_estimator :: "ndarray \<Rightarrow> ndarray \<Rightarrow> ndarray \<Rightarrow> ndarray \<Rightarrow> array_ref"
  weight_fn :: "ndarray \<Rightarrow> ndarray"
  advantage_normalization :: bool
  advantage_normalization_epsilon :: real

datatype error = AssertionError | ValueError | IndexError

text \<open>
  What a call does besides returning: the calls of the injected functions and the array
  arithmetic of the body, in program order.
\<close>

datatype event = ValueFnCalled | EstimatorCalled | Normalized | WeightFnCalled | Multiplied

text \<open>
  The outcome of a call: the returned triple or the raised error, the batch as the call
  leaves it, and the events up to the return or the raise.
\<close>

record outcome =
  result :: "error + (ndarray \<times> ndarray \<times> ndarray)"
  final_batch :: TrajectoryNp
  trace :: "event list"

definition raise :: "error \<Rightarrow> TrajectoryNp \<Rightarrow> event list \<Rightarrow> outcome" where
  "raise e tb evs = \<lparr>result = Inl e, final_batch = tb, trace = evs\<rparr>"

definition deref :: "array_ref \<Rightarrow> TrajectoryNp \<Rightarrow> ndarray \<Rightarrow> ndarray" where
  "deref r tb vals =
     (case r of Fresh a \<Rightarrow> a | ArgRewards \<Rightarrow> rewards tb | ArgReturns \<Rightarrow> returns tb
      | ArgValues \<Rightarrow> vals)"

definition store :: "array_ref \<Rightarrow> ndarray \<Rightarrow> TrajectoryNp \<Rightarrow> TrajectoryNp" where
  "store r a tb =
     (case r of Fresh _ \<Rightarrow> tb | ArgRewards \<Rightarrow> tb\<lparr>rewards := a\<rparr>
      | ArgReturns \<Rightarrow> tb\<lparr>returns := a\<rparr> | ArgValues \<Rightarrow> tb)"

text \<open>
  Lines 136--137, the two in-place statements
  \<^verbatim>\<open>advantages -= np.mean(advantages)\<close> and
  \<^verbatim>\<open>advantages /= (np.std(advantages) + epsilon)\<close>: the standard deviation is taken of
  the array the first statement has already centred.
\<close>

definition normalize_advantages :: "real \<Rightarrow> ndarray \<Rightarrow> ndarray" where
  "normalize_advantages eps advantages =
     (let centred = isub advantages (np_mean advantages)
      in idiv centred (np_add (np_std centred) (Fin eps)))"

text \<open>
  \<^verbatim>\<open>PolicyTrainTask.policy_batch\<close>. Each \<^verbatim>\<open>assert\<close> has no message, so a failed one is
  an \<^verbatim>\<open>AssertionError\<close> with no arguments. Unpacking \<^verbatim>\<open>observations.shape[:2]\<close> into
  two names is a \<^verbatim>\<open>ValueError\<close> for an array of fewer than two axes, and
  \<^verbatim>\<open>advantages.shape[1]\<close> is an \<^verbatim>\<open>IndexError\<close> for such an array.
  \<^verbatim>\<open>np.array(...)\<close> copies what \<^verbatim>\<open>value_fn\<close> returns, so \<open>values\<close> is an array of its
  own.
\<close>

definition policy_batch :: "PolicyTrainTask \<Rightarrow> TrajectoryNp \<Rightarrow> outcome" where
  "policy_batch self trajectory_batch =
     (case shape (observations trajectory_batch) of
        batch_size # seq_len # _ \<Rightarrow>
          if take 2 (shape (actions trajectory_batch)) \<noteq> [batch_size, seq_len]
          then raise AssertionError trajectory_batch []
          else if shape (mask_np trajectory_batch) \<noteq> [batch_size, seq_len]
          then raise AssertionError trajectory_batch []
          else
            let values = value_fn self trajectory_batch in
            if shape values \<noteq> [batch_size, seq_len]
            then raise AssertionError trajectory_batch [ValueFnCalled]
            else
              let ref = advantage_estimator self (rewards trajectory_batch)
                          (returns trajectory_batch) (dones trajectory_batch) values;
                  advantages = deref ref trajectory_batch values
              in
              (case shape advantages of
                 _ # adv_seq_len # _ \<Rightarrow>
                   if \<not> adv_seq_len \<le> seq_len
                   then raise AssertionError trajectory_batch [ValueFnCalled, EstimatorCalled]
                   else if shape advantages \<noteq> [batch_size, adv_seq_len]
                   then raise AssertionError trajectory_batch [ValueFnCalled, EstimatorCalled]
                   else
                     let normalized = advantage_normalization self;
                         advantages =
                           (if normalized
                            then normalize_advantages (advantage_normalization_epsilon self) advantages
                            else advantages);
                         tb = (if normalized then store ref advantages trajectory_batch
                               else trajectory_batch);
                         evs = [ValueFnCalled, EstimatorCalled]
                               @ (if normalized then [Normalized] else [])
                     in
                     (case (slice_axis1 (observations tb) adv_seq_len,
                            slice_axis1 (actions tb) adv_seq_len,
                            slice_axis1 (mask_np tb) adv_seq_len) of
                        (Some observations', Some actions', Some mask') \<Rightarrow>
                          (case np_multiply (weight_fn self advantages) mask' of
                             Some weights \<Rightarrow>
                               if shape weights \<noteq> [batch_size, adv_seq_len]
                               then raise AssertionError tb
                                      (evs @ [WeightFnCalled, Multiplied])
                               else \<lparr>result = Inr (observations', actions', weights),
                                     final_batch = tb,
                                     trace = evs @ [WeightFnCalled, Multiplied]\<rparr>
                           | None \<Rightarrow> raise ValueError tb (evs @ [WeightFnCalled]))
                      | _ \<Rightarrow> raise IndexError tb evs)
               | _ \<Rightarrow> raise IndexError trajectory_batch [ValueFnCalled, EstimatorCalled])
      | _ \<Rightarrow> raise ValueError trajectory_batch [])"


text \<open>
  Names for three values of the body: what the estimator returns for a batch, the array
  \<open>advantages\<close> as the estimator returns it, and the array \<open>advantages\<close> that
  \<^verbatim>\<open>weight_fn\<close> receives.
\<close>

definition estimator_result :: "PolicyTrainTask \<Rightarrow> TrajectoryNp \<Rightarrow> array_ref" where
  "estimator_result self tb =
     advantage_estimator self (rewards tb) (returns tb) (dones tb) (value_fn self tb)"

definition estimated_advantages :: "PolicyTrainTask \<Rightarrow> TrajectoryNp \<Rightarrow> ndarray" where
  "estimated_advantages self tb = deref (estimator_result self tb) tb (value_fn self tb)"

definition final_advantages :: "PolicyTrainTask \<Rightarrow> TrajectoryNp \<Rightarrow> ndarray" where
  "final_advantages self tb =
     (if advantage_normalization self
      then normalize_advantages (advantage_normalization_epsilon self) (estimated_advantages self tb)
      else estimated_advantages self tb)"


section \<open>The evaluation task\<close>

text \<open>
  \<^verbatim>\<open>PolicyEvalTask.entropy_metric\<close>: the function \<^verbatim>\<open>Entropy\<close> deletes its arguments
  \<open>actions\<close> and \<open>weights\<close> and returns \<^verbatim>\<open>jnp.mean(self._policy_dist.entropy(policy_inputs))\<close>.
  The entropy of the policy distribution is a parameter; \<open>actions\<close> and \<open>weights\<close> may be
  values of any type.
\<close>

definition Entropy :: "(ndarray \<Rightarrow> ndarray) \<Rightarrow> ndarray \<Rightarrow> 'a \<Rightarrow> 'b \<Rightarrow> npfloat" where
  "Entropy policy_dist_entropy policy_inputs actions' weights' =
     np_mean (policy_dist_entropy policy_inputs)"


section \<open>The specification's words\<close>

text \<open>
  The arithmetic mean and the population standard deviation of a list of real numbers,
  as the specification names them; the operations of the code are compared with these.
\<close>

definition mean_of :: "real list \<Rightarrow> real" where
  "mean_of xs = sum_list xs / real (length xs)"

definition std_of :: "real list \<Rightarrow> real" where
  "std_of xs = sqrt (sum_list (map (\<lambda>x. (x - mean_of xs)\<^sup>2) xs) / real (length xs))"


section \<open>Example batches and tasks\<close>

text \<open>
  Small concrete inputs on which the theorems below are instantiated. \<open>example_task\<close> has
  the default \<^verbatim>\<open>weight_fn\<close> (the identity), the default epsilon \<open>1e-5\<close> and a value
  function that returns zeros.
\<close>

definition zeros_like :: "ndarray \<Rightarrow> ndarray" where
  "zeros_like a = \<lparr>shape = shape a, data = map (\<lambda>v. Fin 0) (data a)\<rparr>"

definition example_task ::
  "bool \<Rightarrow> (ndarray \<Rightarrow> ndarray \<Rightarrow> ndarray \<Rightarrow> ndarray \<Rightarrow> array_ref) \<Rightarrow> PolicyTrainTask" where
  "example_task normalization estimator =
     \<lparr>value_fn = (\<lambda>tb. zeros_like (returns tb)),
      advantage_estimator = estimator,
      weight_fn = (\<lambda>x. x),
      advantage_normalization = normalization,
      advantage_normalization_epsilon = 1 / 100000\<rparr>"

text \<open>
  Three estimators: one returns a new array holding the rewards, one returns its argument
  \<open>returns\<close> itself, one returns a given new array.
\<close>

definition rewards_copy :: "ndarray \<Rightarrow> ndarray \<Rightarrow> ndarray \<Rightarrow> ndarray \<Rightarrow> array_ref" where
  "rewards_copy rewards' returns' dones' values = Fresh rewards'"

definition returns_itself :: "ndarray \<Rightarrow> ndarray \<Rightarrow> ndarray \<Rightarrow> ndarray \<Rightarrow> array_ref" where
  "returns_itself rewards' returns' dones' values = ArgReturns"

definition constant_estimator ::
  "ndarray \<Rightarrow> ndarray \<Rightarrow> ndarray \<Rightarrow> ndarray \<Rightarrow> ndarray \<Rightarrow> array_ref" where
  "constant_estimator a rewards' returns' dones' values = Fresh a"

text \<open>A batch of one trajectory slice of two timesteps.\<close>

definition batch_1x2 :: TrajectoryNp where
  "batch_1x2 =
     \<lparr>observations = \<lparr>shape = [1, 2], data = [Fin 5, Fin 6]\<rparr>,
      actions = \<lparr>shape = [1, 2], data = [Fin 0, Fin 1]\<rparr>,
      rewards = \<lparr>shape = [1, 2], data = [Fin 0, Fin (1 / 50000)]\<rparr>,
      returns = \<lparr>shape = [1, 2], data = [Fin 1, Fin 3]\<rparr>,
      dones = \<lparr>shape = [1, 2], data = [Fin 0, Fin 1]\<rparr>,
      mask_np = \<lparr>shape = [1, 2], data = [Fin 1, Fin 1]\<rparr>\<rparr>"

text \<open>
  A batch of one slice of five timesteps with two numbers per observation; an estimator
  of margin 2 returns three advantages for it.
\<close>

definition batch_1x5 :: TrajectoryNp where
  "batch_1x5 =
     \<lparr>observations = \<lparr>shape = [1, 5, 2],
        data = [Fin 10, Fin 11, Fin 20, Fin 21, Fin 30, Fin 31, Fin 40, Fin 41, Fin 50, Fin 51]\<rparr>,
      actions = \<lparr>shape = [1, 5], data = [Fin 1, Fin 2, Fin 3, Fin 4, Fin 5]\<rparr>,
      rewards = \<lparr>shape = [1, 5], data = [Fin 1, Fin 1, Fin 1, Fin 1, Fin 1]\<rparr>,
      returns = \<lparr>shape = [1, 5], data = [Fin 5, Fin 4, Fin 3, Fin 2, Fin 1]\<rparr>,
      dones = \<lparr>shape = [1, 5], data = [Fin 0, Fin 0, Fin 0, Fin 0, Fin 1]\<rparr>,
      mask_np = \<lparr>shape = [1, 5], data = [Fin 1, Fin 1, Fin 0, Fin 1, Fin 1]\<rparr>\<rparr>"

definition advantages_1x3 :: ndarray where
  "advantages_1x3 = \<lparr>shape = [1, 3], data = [Fin 5, Fin 4, Fin 3]\<rparr>"


text \<open>
  Two batches whose \<open>actions\<close> do not have the leading shape of the other fields, and a
  weight function whose result cannot be broadcast against a mask of two columns.
\<close>

definition batch_bad_actions :: TrajectoryNp where
  "batch_bad_actions =
     batch_1x2\<lparr>actions := \<lparr>shape = [1, 3], data = [Fin 0, Fin 1, Fin 0]\<rparr>\<rparr>"

definition batch_bad_actions2 :: TrajectoryNp where
  "batch_bad_actions2 =
     batch_1x2\<lparr>actions := \<lparr>shape = [2, 2], data = [Fin 0, Fin 1, Fin 0, Fin 1]\<rparr>\<rparr>"

definition three_ones :: "ndarray \<Rightarrow> ndarray" where
  "three_ones a = \<lparr>shape = [3], data = [Fin 1, Fin 1, Fin 1]\<rparr>"


text \<open>
  A batch whose second timestep is masked out, and advantages that are infinite there.
\<close>

definition batch_masked :: TrajectoryNp where
  "batch_masked = batch_1x2\<lparr>mask_np := \<lparr>shape = [1, 2], data = [Fin 1, Fin 0]\<rparr>\<rparr>"

definition advantages_inf :: ndarray where
  "advantages_inf = \<lparr>shape = [1, 2], data = [Fin 1, PInf]\<rparr>"


section \<open>Facts about the array operations\<close>

lemma np_sum_finite: "np_sum (map Fin xs) = Fin (sum_list xs)"
  by (induction xs) simp_all

lemma length_unravel: "length (unravel s n) = length s"
  by (induction s arbitrary: n) simp_all

lemma ravel_unravel: "n < prod_list s \<Longrightarrow> ravel s (unravel s n) = n"
proof (induction s arbitrary: n)
  case Nil
  then show ?case by simp
next
  case (Cons d ds)
  from Cons.prems have pos: "0 < prod_list ds"
    by (cases "prod_list ds = 0") simp_all
  then have "n mod prod_list ds < prod_list ds" by simp
  then have "ravel ds (unravel ds (n mod prod_list ds)) = n mod prod_list ds"
    by (rule Cons.IH)
  then show ?case by simp
qed

lemma unravel_bounds: "n < prod_list s \<Longrightarrow> list_all2 (\<lambda>i d. i < d) (unravel s n) s"
proof (induction s arbitrary: n)
  case Nil
  then show ?case by simp
next
  case (Cons d ds)
  from Cons.prems have pos: "0 < prod_list ds"
    by (cases "prod_list ds = 0") simp_all
  have "n div prod_list ds < d"
    using Cons.prems pos by (simp add: less_mult_imp_div_less mult.commute)
  moreover have "list_all2 (\<lambda>i d. i < d) (unravel ds (n mod prod_list ds)) ds"
    using pos by (intro Cons.IH) simp
  ultimately show ?case by simp
qed

lemma bc_same: "list_all2 (\<lambda>i d. i < d) idx (s :: nat list) \<Longrightarrow>
    map2 (\<lambda>d i. if d = 1 then 0 else i) s idx = idx"
  by (induction idx s rule: list_all2_induct) auto

lemma ravel_bound: "list_all2 (\<lambda>i d. i < d) idx s \<Longrightarrow> ravel s idx < prod_list s"
proof (induction idx s rule: list_all2_induct)
  case Nil
  then show ?case by simp
next
  case (Cons i idx d ds)
  have "i * prod_list ds + ravel ds idx < i * prod_list ds + prod_list ds"
    using Cons.IH by simp
  also have "\<dots> = (i + 1) * prod_list ds" by simp
  also have "\<dots> \<le> d * prod_list ds"
    using Cons.hyps(1) by (intro mult_le_mono1) simp
  finally show ?case by simp
qed

lemma bc_index_own:
  assumes "list_all2 (\<lambda>i d. i < d) idx s"
  shows "bc_index s idx = ravel s idx"
proof -
  have "length idx = length s"
    using assms by (rule list_all2_lengthD)
  then have "drop (length idx - length s) idx = idx" by simp
  then show ?thesis
    unfolding bc_index_def by (simp only: bc_same [OF assms])
qed

lemma bc_index_unravel: "n < prod_list s \<Longrightarrow> bc_index s (unravel s n) = n"
  by (simp add: bc_index_own unravel_bounds ravel_unravel)



lemma np_multiply_nth:
  assumes "np_multiply a b = Some w" and "shape w = shape b" and "n < prod_list (shape b)"
  shows "data w ! n = np_mul (bc_item a (unravel (shape b) n)) (data b ! n)"
  using assms
  by (auto simp: np_multiply_def bc_item_def bc_index_unravel split: option.splits)

lemma np_multiply_length:
  "np_multiply a b = Some w \<Longrightarrow> wellformed w"
  by (auto simp: np_multiply_def wellformed_def split: option.splits)

lemma nth_concat_blocks:
  assumes "\<And>i. i < b \<Longrightarrow> length (f i) = m" and "i < b" and "j < m"
  shows "concat (map f [0..<b]) ! (i * m + j) = f i ! j"
  using assms
proof (induction b)
  case 0
  then show ?case by simp
next
  case (Suc b)
  have len: "length (concat (map f [0..<b])) = b * m"
    using Suc.prems(1) by (induction b) simp_all
  show ?case
  proof (cases "i < b")
    case True
    then have "i * m + j < b * m"
      using Suc.prems(3)
      by (metis add.commute mult_Suc less_le_trans add_less_cancel_left Suc_leI mult_le_mono1)
    with True Suc show ?thesis by (simp add: nth_append len)
  next
    case False
    with Suc.prems have "i = b" by simp
    then show ?thesis by (simp add: nth_append len)
  qed
qed


lemma slice_axis1_nth:
  assumes sh: "shape a = b # t # rest" and wf: "wellformed a"
    and sl: "slice_axis1 a k = Some a'"
    and i: "i < b" and j: "j < min k t * prod_list rest"
  shows "data a' ! (i * (min k t * prod_list rest) + j) = data a ! (i * (t * prod_list rest) + j)"
proof -
  let ?r = "prod_list rest"
  let ?f = "\<lambda>i. take (min k t * ?r) (drop (i * (t * ?r)) (data a))"
  have len: "length (data a) = b * (t * ?r)"
    using sh wf by (simp add: wellformed_def)
  have blk: "length (?f i') = min k t * ?r" if "i' < b" for i'
  proof -
    have "i' * (t * ?r) + t * ?r \<le> b * (t * ?r)"
      using that by (metis Suc_leI mult_Suc mult_le_mono1 add.commute)
    moreover have "min k t * ?r \<le> t * ?r" by (simp add: mult_le_mono1)
    ultimately have "min k t * ?r \<le> b * (t * ?r) - i' * (t * ?r)" by linarith
    then show ?thesis using len by (simp add: min_absorb2)
  qed
  have d: "data a' = concat (map ?f [0..<b])"
    using sl sh by (auto simp: slice_axis1_def)
  have "data a' ! (i * (min k t * ?r) + j) = ?f i ! j"
    unfolding d using blk i j by (rule nth_concat_blocks)
  also have "\<dots> = data a ! (i * (t * ?r) + j)"
  proof -
    have "i * (t * ?r) \<le> length (data a)"
      using i len by simp
    then show ?thesis using j by simp
  qed
  finally show ?thesis .
qed

lemma slice_axis1_item:
  assumes sh: "shape a = b # t # rest" and wf: "wellformed a"
    and sl: "slice_axis1 a k = Some a'"
    and i: "i < b" and u: "u < min k t" and js: "list_all2 (\<lambda>i d. i < d) js rest"
  shows "item a' (i # u # js) = item a (i # u # js)"
proof -
  let ?r = "prod_list rest"
  have q: "ravel rest js < ?r" using js by (rule ravel_bound)
  have "u * ?r + ravel rest js < u * ?r + ?r" using q by simp
  also have "\<dots> = (u + 1) * ?r" by simp
  also have "\<dots> \<le> min k t * ?r" using u by (intro mult_le_mono1) simp
  finally have j: "u * ?r + ravel rest js < min k t * ?r" .
  have sh': "shape a' = b # min k t # rest"
    using sl sh by (auto simp: slice_axis1_def)
  show ?thesis
    using slice_axis1_nth [OF sh wf sl i j]
    by (simp add: item_def sh sh' add.assoc)
qed

lemma np_mean_finite:
  "data a = map Fin xs \<Longrightarrow> xs \<noteq> [] \<Longrightarrow> np_mean a = Fin (mean_of xs)"
  by (simp add: np_mean_def np_sum_finite mean_of_def)

lemma np_sum_finite_map: "np_sum (map (\<lambda>x. Fin (f x)) xs) = Fin (sum_list (map f xs))"
  by (induction xs) simp_all

lemma np_std_finite:
  assumes "data a = map Fin xs" and "xs \<noteq> []"
  shows "np_std a = Fin (std_of xs)"
proof -
  have "0 \<le> sum_list (map (\<lambda>x. (x - mean_of xs)\<^sup>2) xs)"
    by (rule sum_list_nonneg) auto
  then have nn: "\<not> sum_list (map (\<lambda>x. (x - mean_of xs)\<^sup>2) xs) / real (length xs) < 0"
    by (simp add: not_less)
  show ?thesis
    using assms nn
    by (simp add: np_std_def np_mean_finite [OF assms] Let_def comp_def np_sub_def
        np_sum_finite_map std_of_def flip: power2_eq_square)
qed

lemma sum_list_shift: "sum_list (map (\<lambda>x. x - c) xs) = sum_list xs - real (length xs) * c"
  by (induction xs) (simp_all add: algebra_simps)

lemma mean_of_centred:
  "xs \<noteq> [] \<Longrightarrow> mean_of (map (\<lambda>x. x - mean_of xs) xs) = 0"
  by (simp add: mean_of_def sum_list_shift)

lemma std_of_centred:
  "xs \<noteq> [] \<Longrightarrow> std_of (map (\<lambda>x. x - mean_of xs) xs) = std_of xs"
  by (simp add: std_of_def mean_of_centred comp_def)

lemma sum_list_scale: "sum_list (map (\<lambda>x. f x / c) xs) = sum_list (map f xs) / (c::real)"
  by (induction xs) (simp_all add: add_divide_distrib)

lemma mean_of_scaled: "mean_of (map (\<lambda>x. x / c) xs) = mean_of xs / c"
  using sum_list_scale [of "\<lambda>x. x" c xs] by (simp add: mean_of_def)

lemma std_of_scaled:
  assumes "0 < c"
  shows "std_of (map (\<lambda>x. x / c) xs) = std_of xs / c"
proof -
  have "(x / c - mean_of xs / c)\<^sup>2 = (x - mean_of xs)\<^sup>2 / c\<^sup>2" for x
    by (simp add: power_divide flip: diff_divide_distrib)
  then have "sum_list (map (\<lambda>x. (x / c - mean_of xs / c)\<^sup>2) xs)
      = sum_list (map (\<lambda>x. (x - mean_of xs)\<^sup>2) xs) / c\<^sup>2"
    by (simp add: sum_list_scale)
  then have "std_of (map (\<lambda>x. x / c) xs)
      = sqrt (sum_list (map (\<lambda>x. (x - mean_of xs)\<^sup>2) xs) / real (length xs) / c\<^sup>2)"
    by (simp add: std_of_def mean_of_scaled comp_def)
  also have "\<dots> = std_of xs / c"
    using assms by (simp only: real_sqrt_divide std_of_def real_sqrt_abs)
  finally show ?thesis .
qed


section \<open>Facts about \<open>policy_batch\<close>\<close>

lemma store_frame:
  "observations (store r a tb) = observations tb"
  "actions (store r a tb) = actions tb"
  "dones (store r a tb) = dones tb"
  "mask_np (store r a tb) = mask_np tb"
  by (simp_all add: store_def split: array_ref.splits)

lemma shape_normalize: "shape (normalize_advantages eps a) = shape a"
  by (simp add: normalize_advantages_def isub_def idiv_def Let_def)

lemma policy_batch_Inr:
  assumes "result (policy_batch self tb) = Inr (obs, acts, weights)"
  shows "\<exists>batch_size seq_len obs_shape adv_seq_len mask'.
      shape (observations tb) = batch_size # seq_len # obs_shape
    \<and> take 2 (shape (actions tb)) = [batch_size, seq_len]
    \<and> shape (mask_np tb) = [batch_size, seq_len]
    \<and> shape (value_fn self tb) = [batch_size, seq_len]
    \<and> shape (estimated_advantages self tb) = [batch_size, adv_seq_len]
    \<and> adv_seq_len \<le> seq_len
    \<and> slice_axis1 (observations tb) adv_seq_len = Some obs
    \<and> slice_axis1 (actions tb) adv_seq_len = Some acts
    \<and> slice_axis1 (mask_np tb) adv_seq_len = Some mask'
    \<and> np_multiply (weight_fn self (final_advantages self tb)) mask' = Some weights
    \<and> shape weights = [batch_size, adv_seq_len]"
  using assms
  unfolding policy_batch_def estimated_advantages_def final_advantages_def
    estimator_result_def raise_def Let_def
  by (auto simp: store_frame split: list.splits if_splits option.splits prod.splits)


lemma take2_shape: "take 2 s = [b, t] \<Longrightarrow> \<exists>rest. s = b # t # rest"
  by (cases s; cases "tl s") (auto simp: numeral_2_eq_2)





lemma final_batch_cases_pred:
  assumes "P tb"
    and "advantage_normalization self \<Longrightarrow>
      P (store (estimator_result self tb)
            (normalize_advantages (advantage_normalization_epsilon self)
               (estimated_advantages self tb)) tb)"
  shows "P (final_batch (policy_batch self tb))"
  using assms
  unfolding policy_batch_def raise_def Let_def estimator_result_def estimated_advantages_def
  by (simp split: list.splits option.splits prod.splits)

lemma final_batch_cases:
  "final_batch (policy_batch self tb) = tb
   \<or> advantage_normalization self
     \<and> final_batch (policy_batch self tb)
        = store (estimator_result self tb)
            (normalize_advantages (advantage_normalization_epsilon self)
               (estimated_advantages self tb)) tb"
  by (rule final_batch_cases_pred) simp_all

lemma final_batch_unnormalized:
  "\<not> advantage_normalization self \<Longrightarrow> final_batch (policy_batch self tb) = tb"
  using final_batch_cases [of self tb] by auto

lemma length_concat_blocks:
  "(\<And>i. i < b \<Longrightarrow> length (f i) = m) \<Longrightarrow> length (concat (map f [0..<b])) = b * m"
  by (induction b) simp_all

lemma slice_axis1_wellformed:
  assumes sh: "shape a = b # t # rest" and wf: "wellformed a"
    and sl: "slice_axis1 a k = Some a'"
  shows "wellformed a'"
proof -
  let ?r = "prod_list rest"
  let ?f = "\<lambda>i. take (min k t * ?r) (drop (i * (t * ?r)) (data a))"
  have len: "length (data a) = b * (t * ?r)"
    using sh wf by (simp add: wellformed_def)
  have blk: "length (?f i') = min k t * ?r" if "i' < b" for i'
  proof -
    have "i' * (t * ?r) + t * ?r \<le> b * (t * ?r)"
      using that by (metis Suc_leI mult_Suc mult_le_mono1 add.commute)
    moreover have "min k t * ?r \<le> t * ?r" by (simp add: mult_le_mono1)
    ultimately have "min k t * ?r \<le> b * (t * ?r) - i' * (t * ?r)" by linarith
    then show ?thesis using len by (simp add: min_absorb2)
  qed
  have "length (concat (map ?f [0..<b])) = b * (min k t * ?r)"
    using blk by (rule length_concat_blocks)
  then show ?thesis
    using sl sh by (auto simp: slice_axis1_def wellformed_def)
qed

lemma unravel_pair: "t < k \<Longrightarrow> unravel [b, k] (i * k + t) = [i, t]"
  by simp

lemma np_mul_zero: "is_finite x \<Longrightarrow> np_mul x (Fin 0) = Fin 0"
  by (cases x) simp_all

lemma std_of_nonneg: "0 \<le> std_of xs"
proof -
  have "0 \<le> sum_list (map (\<lambda>x. (x - mean_of xs)\<^sup>2) xs)"
    by (rule sum_list_nonneg) auto
  then show ?thesis by (simp add: std_of_def)
qed

lemma normalize_finite:
  assumes fin: "data a = map Fin xs" and ne: "xs \<noteq> []" and eps: "0 < eps"
  shows "normalize_advantages eps a
    = a\<lparr>data := map (\<lambda>x. Fin ((x - mean_of xs) / (std_of xs + eps))) xs\<rparr>"
proof -
  let ?c = "isub a (np_mean a)"
  let ?ys = "map (\<lambda>x. x - mean_of xs) xs"
  have c: "data ?c = map Fin ?ys"
    by (simp add: isub_def np_mean_finite [OF fin ne] fin np_sub_def)
  have "?ys \<noteq> []" using ne by simp
  with c have "np_std ?c = Fin (std_of ?ys)" by (rule np_std_finite)
  then have s: "np_std ?c = Fin (std_of xs)"
    using ne by (simp add: std_of_centred)
  have pos: "std_of xs + eps \<noteq> 0"
    using std_of_nonneg [of xs] eps by linarith
  have "data (normalize_advantages eps a)
      = map (\<lambda>x. Fin ((x - mean_of xs) / (std_of xs + eps))) xs"
    using pos by (simp add: normalize_advantages_def Let_def s idiv_def c)
  moreover have "shape (normalize_advantages eps a) = shape a"
    by (rule shape_normalize)
  ultimately show ?thesis by simp
qed

lemma normalized_mean_std:
  assumes ne: "xs \<noteq> []" and eps: "0 < eps"
  shows "mean_of (map (\<lambda>x. (x - mean_of xs) / (std_of xs + eps)) xs) = 0"
    and "std_of (map (\<lambda>x. (x - mean_of xs) / (std_of xs + eps)) xs)
        = std_of xs / (std_of xs + eps)"
proof -
  let ?ys = "map (\<lambda>x. x - mean_of xs) xs"
  let ?d = "std_of xs + eps"
  have d: "0 < ?d" using std_of_nonneg [of xs] eps by linarith
  have e: "map (\<lambda>x. (x - mean_of xs) / ?d) xs = map (\<lambda>y. y / ?d) ?ys"
    by simp
  show "mean_of (map (\<lambda>x. (x - mean_of xs) / ?d) xs) = 0"
    unfolding e by (simp only: mean_of_scaled mean_of_centred [OF ne] div_0)
  show "std_of (map (\<lambda>x. (x - mean_of xs) / ?d) xs) = std_of xs / ?d"
    unfolding e by (simp only: std_of_scaled [OF d] std_of_centred [OF ne])
qed

text \<open>
  In exact arithmetic a constant array of finite entries is normalized to zeros: the
  centred entries are 0 and the divisor is \<open>0 + epsilon\<close>. Whether the rounded
  floating-point mean of a constant array is that constant is outside this model.
\<close>

lemma normalize_constant:
  assumes "data a = replicate n (Fin c)" and "0 < eps"
  shows "data (normalize_advantages eps a) = replicate n (Fin 0)"
proof (cases n)
  case 0
  with assms show ?thesis
    by (simp add: normalize_advantages_def Let_def isub_def idiv_def)
next
  case (Suc m)
  let ?xs = "replicate n c"
  have fin: "data a = map Fin ?xs" using assms by simp
  have ne: "?xs \<noteq> []" using Suc by simp
  have "(c + real m * c) / (1 + real m) = c"
    by (simp add: field_simps)
  then have "mean_of ?xs = c"
    using Suc by (simp add: mean_of_def sum_list_replicate)
  then show ?thesis
    by (simp add: normalize_finite [OF fin ne assms(2)] map_replicate_const)
qed

lemmas eval_defs = policy_batch_def example_task_def rewards_copy_def returns_itself_def
  constant_estimator_def advantages_1x3_def batch_1x2_def batch_1x5_def zeros_like_def
  deref_def store_def raise_def slice_axis1_def np_multiply_def broadcast_shapes_def
  bc_item_def bc_index_def Let_def normalize_advantages_def isub_def idiv_def np_mean_def
  np_std_def np_sub_def item_def estimator_result_def estimated_advantages_def
  final_advantages_def batch_bad_actions_def batch_bad_actions2_def three_ones_def
  batch_masked_def advantages_inf_def wellformed_def

lemma sqrt_quarter: "sqrt (1 / 4) = 1 / 2"
  by (rule real_sqrt_unique) (simp_all add: power2_eq_square)

lemma sqrt_tiny: "sqrt (1 / 10000000000) = 1 / 100000"
  by (rule real_sqrt_unique) (simp_all add: power2_eq_square)


section \<open>The claims\<close>





text \<open>
  C8. With \<open>advantage_normalization = False\<close> a call leaves the batch as it found it, so
  a second call on the same batch object sees the same input and has the same outcome as
  the first: the same result (in particular the same weights), the same final batch, the
  same trace. The injected functions are functions of their arguments.
\<close>

theorem policy_batch_repeatable:
  assumes "\<not> advantage_normalization self"
  shows "final_batch (policy_batch self tb) = tb
    \<and> policy_batch self (final_batch (policy_batch self tb)) = policy_batch self tb"
  using assms by (simp add: final_batch_unnormalized)

theorem policy_batch_repeatable_witness:
  "final_batch (policy_batch (example_task False rewards_copy) batch_1x2) = batch_1x2
    \<and> policy_batch (example_task False rewards_copy)
        (final_batch (policy_batch (example_task False rewards_copy) batch_1x2))
      = policy_batch (example_task False rewards_copy) batch_1x2"
  using policy_batch_repeatable [where self = "example_task False rewards_copy"
      and tb = batch_1x2]
  by (simp add: example_task_def)




text \<open>
  C7. \<^verbatim>\<open>Entropy\<close> returns \<^verbatim>\<open>mean\<close> of the entropy of the policy distribution on
  \<open>policy_inputs\<close>, which for finite entropies is their arithmetic mean over all entries;
  the result is the same for any two pairs of \<open>actions\<close> and \<open>weights\<close>, of whatever
  types.
\<close>

theorem entropy_metric_mean:
  "Entropy ent policy_inputs a w = np_mean (ent policy_inputs)
   \<and> Entropy ent policy_inputs a w = Entropy ent policy_inputs a' w'
   \<and> (data (ent policy_inputs) = map Fin xs \<and> xs \<noteq> []
      \<longrightarrow> Entropy ent policy_inputs a w = Fin (mean_of xs))"
  by (simp add: Entropy_def np_mean_finite)

theorem entropy_metric_mean_witness:
  "Entropy (\<lambda>p. \<lparr>shape = [1, 2], data = [Fin (ln 3), Fin (ln 3)]\<rparr>) advantages_1x3
      (None :: nat option) ([] :: nat list) = Fin (ln 3)
   \<and> Entropy (\<lambda>p. \<lparr>shape = [1, 2], data = [Fin (ln 3), Fin (ln 3)]\<rparr>) advantages_1x3
      (None :: nat option) ([] :: nat list)
     = Entropy (\<lambda>p. \<lparr>shape = [1, 2], data = [Fin (ln 3), Fin (ln 3)]\<rparr>) advantages_1x3
      advantages_1x3 advantages_1x3"
  using entropy_metric_mean [where ent = "\<lambda>p. \<lparr>shape = [1, 2], data = [Fin (ln 3), Fin (ln 3)]\<rparr>"
      and policy_inputs = advantages_1x3 and a = "None :: nat option" and w = "[] :: nat list"
      and a' = advantages_1x3 and w' = advantages_1x3 and xs = "[ln 3, ln 3]"]
  by (simp add: mean_of_def Entropy_def)




text \<open>
  C4. When \<^verbatim>\<open>policy_batch\<close> returns, the returned observations and actions and the mask
  that multiplies the weighted advantages are the first \<open>adv_seq_len\<close> timesteps of the
  batch's \<open>observations\<close>, \<open>actions\<close> and \<open>mask\<close>: they have the shape of the original
  with axis 1 cut to \<open>adv_seq_len\<close>, and every entry \<open>[i, t, ...]\<close> with
  \<open>t < adv_seq_len\<close> is the original's entry at the same index. The witness is the case
  \<open>seq_len = 5\<close>, \<open>adv_seq_len = 3\<close>.
\<close>

theorem trimmed_arrays_are_prefixes:
  assumes ok: "result (policy_batch self tb) = Inr (obs, acts, weights)"
    and wfo: "wellformed (observations tb)"
    and wfa: "wellformed (actions tb)"
    and wfm: "wellformed (mask_np tb)"
  shows "\<exists>batch_size adv_seq_len mask'.
      shape (estimated_advantages self tb) = [batch_size, adv_seq_len]
    \<and> shape obs = batch_size # adv_seq_len # drop 2 (shape (observations tb))
    \<and> shape acts = batch_size # adv_seq_len # drop 2 (shape (actions tb))
    \<and> shape mask' = [batch_size, adv_seq_len]
    \<and> wellformed obs \<and> wellformed acts \<and> wellformed mask'
    \<and> np_multiply (weight_fn self (final_advantages self tb)) mask' = Some weights
    \<and> (\<forall>i t js. i < batch_size \<and> t < adv_seq_len
          \<and> list_all2 (\<lambda>j d. j < d) js (drop 2 (shape (observations tb)))
        \<longrightarrow> item obs (i # t # js) = item (observations tb) (i # t # js))
    \<and> (\<forall>i t js. i < batch_size \<and> t < adv_seq_len
          \<and> list_all2 (\<lambda>j d. j < d) js (drop 2 (shape (actions tb)))
        \<longrightarrow> item acts (i # t # js) = item (actions tb) (i # t # js))
    \<and> (\<forall>i t. i < batch_size \<and> t < adv_seq_len
        \<longrightarrow> item mask' [i, t] = item (mask_np tb) [i, t])"
proof -
  from policy_batch_Inr [OF ok] obtain batch_size seq_len obs_shape adv_seq_len mask'
    where sho: "shape (observations tb) = batch_size # seq_len # obs_shape"
      and ta: "take 2 (shape (actions tb)) = [batch_size, seq_len]"
      and shm: "shape (mask_np tb) = [batch_size, seq_len]"
      and adv: "shape (estimated_advantages self tb) = [batch_size, adv_seq_len]"
      and le: "adv_seq_len \<le> seq_len"
      and so: "slice_axis1 (observations tb) adv_seq_len = Some obs"
      and sa: "slice_axis1 (actions tb) adv_seq_len = Some acts"
      and sm: "slice_axis1 (mask_np tb) adv_seq_len = Some mask'"
      and mul: "np_multiply (weight_fn self (final_advantages self tb)) mask' = Some weights"
    by blast
  obtain act_shape where sha: "shape (actions tb) = batch_size # seq_len # act_shape"
    using take2_shape [OF ta] by blast
  have m: "min adv_seq_len seq_len = adv_seq_len" using le by simp
  have "shape obs = batch_size # adv_seq_len # drop 2 (shape (observations tb))"
    using so sho m by (auto simp: slice_axis1_def)
  moreover have "shape acts = batch_size # adv_seq_len # drop 2 (shape (actions tb))"
    using sa sha m by (auto simp: slice_axis1_def)
  moreover have "shape mask' = [batch_size, adv_seq_len]"
    using sm shm m by (auto simp: slice_axis1_def)
  moreover have "wellformed obs" "wellformed acts" "wellformed mask'"
    using slice_axis1_wellformed [OF sho wfo so] slice_axis1_wellformed [OF sha wfa sa]
      slice_axis1_wellformed [OF shm wfm sm] by simp_all
  moreover have "item obs (i # t # js) = item (observations tb) (i # t # js)"
    if "i < batch_size" "t < adv_seq_len"
      "list_all2 (\<lambda>j d. j < d) js (drop 2 (shape (observations tb)))" for i t js
    using slice_axis1_item [OF sho wfo so, of i t js] that m sho by simp
  moreover have "item acts (i # t # js) = item (actions tb) (i # t # js)"
    if "i < batch_size" "t < adv_seq_len"
      "list_all2 (\<lambda>j d. j < d) js (drop 2 (shape (actions tb)))" for i t js
    using slice_axis1_item [OF sha wfa sa, of i t js] that m sha by simp
  moreover have "item mask' [i, t] = item (mask_np tb) [i, t]"
    if "i < batch_size" "t < adv_seq_len" for i t
    using slice_axis1_item [OF shm wfm sm, of i t "[]"] that m by simp
  ultimately show ?thesis
    using adv mul by blast
qed

theorem trimmed_arrays_are_prefixes_witness:
  "result (policy_batch (example_task False (constant_estimator advantages_1x3)) batch_1x5)
     = Inr (\<lparr>shape = [1, 3, 2], data = [Fin 10, Fin 11, Fin 20, Fin 21, Fin 30, Fin 31]\<rparr>,
            \<lparr>shape = [1, 3], data = [Fin 1, Fin 2, Fin 3]\<rparr>,
            \<lparr>shape = [1, 3], data = [Fin 5, Fin 4, Fin 0]\<rparr>)
   \<and> (\<exists>mask'. shape mask' = [1, 3]
        \<and> np_multiply advantages_1x3 mask'
            = Some \<lparr>shape = [1, 3], data = [Fin 5, Fin 4, Fin 0]\<rparr>
        \<and> item mask' [0, 2] = item (mask_np batch_1x5) [0, 2])
   \<and> item \<lparr>shape = [1, 3, 2], data = [Fin 10, Fin 11, Fin 20, Fin 21, Fin 30, Fin 31]\<rparr> [0, 2, 1]
       = item (observations batch_1x5) [0, 2, 1]"
proof -
  have r: "result (policy_batch (example_task False (constant_estimator advantages_1x3)) batch_1x5)
     = Inr (\<lparr>shape = [1, 3, 2], data = [Fin 10, Fin 11, Fin 20, Fin 21, Fin 30, Fin 31]\<rparr>,
            \<lparr>shape = [1, 3], data = [Fin 1, Fin 2, Fin 3]\<rparr>,
            \<lparr>shape = [1, 3], data = [Fin 5, Fin 4, Fin 0]\<rparr>)"
    by (simp add: eval_defs upt_rec)
  have wf: "wellformed (observations batch_1x5)" "wellformed (actions batch_1x5)"
      "wellformed (mask_np batch_1x5)"
    by (simp_all add: wellformed_def batch_1x5_def)
  have adv: "estimated_advantages (example_task False (constant_estimator advantages_1x3)) batch_1x5
      = advantages_1x3"
    "final_advantages (example_task False (constant_estimator advantages_1x3)) batch_1x5
      = advantages_1x3"
    by (simp_all add: estimated_advantages_def final_advantages_def estimator_result_def
        example_task_def constant_estimator_def deref_def)
  have w: "weight_fn (example_task False (constant_estimator advantages_1x3)) advantages_1x3
      = advantages_1x3"
    by (simp add: example_task_def)
  from trimmed_arrays_are_prefixes [OF r wf, unfolded adv w]
  obtain batch_size adv_seq_len mask' where
    "shape advantages_1x3 = [batch_size, adv_seq_len]"
    "shape mask' = [batch_size, adv_seq_len]"
    "np_multiply advantages_1x3 mask' = Some \<lparr>shape = [1, 3], data = [Fin 5, Fin 4, Fin 0]\<rparr>"
    "\<forall>i t js. i < batch_size \<and> t < adv_seq_len
       \<and> list_all2 (\<lambda>j d. j < d) js (drop 2 (shape (observations batch_1x5)))
      \<longrightarrow> item \<lparr>shape = [1, 3, 2], data = [Fin 10, Fin 11, Fin 20, Fin 21, Fin 30, Fin 31]\<rparr> (i # t # js)
          = item (observations batch_1x5) (i # t # js)"
    "\<forall>i t. i < batch_size \<and> t < adv_seq_len
      \<longrightarrow> item mask' [i, t] = item (mask_np batch_1x5) [i, t]"
    by blast
  moreover from this(1) have "batch_size = 1" "adv_seq_len = 3"
    by (simp_all add: advantages_1x3_def)
  ultimately have "shape mask' = [1, 3]"
    "item mask' [0, 2] = item (mask_np batch_1x5) [0, 2]"
    "item \<lparr>shape = [1, 3, 2], data = [Fin 10, Fin 11, Fin 20, Fin 21, Fin 30, Fin 31]\<rparr> [0, 2, 1]
       = item (observations batch_1x5) [0, 2, 1]"
    by (simp_all add: batch_1x5_def)
  with r \<open>np_multiply advantages_1x3 mask' = _\<close> show ?thesis by blast
qed

text \<open>
  C3 as stated fails for an entry of \<^verbatim>\<open>weight_fn(advantages)\<close> that is not finite: with the
  identity \<^verbatim>\<open>weight_fn\<close>, an advantage \<open>inf\<close> at a timestep whose mask is 0 gives the
  weight \<open>inf * 0 = nan\<close>, not 0.
\<close>

theorem masked_weight_nan_counterexample:
  "result (policy_batch (example_task False (constant_estimator advantages_inf)) batch_masked)
     = Inr (\<lparr>shape = [1, 2], data = [Fin 5, Fin 6]\<rparr>,
            \<lparr>shape = [1, 2], data = [Fin 0, Fin 1]\<rparr>,
            \<lparr>shape = [1, 2], data = [Fin 1, NaN]\<rparr>)
   \<and> item (mask_np batch_masked) [0, 1] = Fin 0
   \<and> item \<lparr>shape = [1, 2], data = [Fin 1, NaN]\<rparr> [0, 1] = NaN
   \<and> NaN \<noteq> Fin 0"
  by (simp add: eval_defs upt_rec)

text \<open>
  C3, amended. When \<^verbatim>\<open>policy_batch\<close> returns, the weight at \<open>[i, t]\<close> is the product of
  the entry of \<^verbatim>\<open>weight_fn(advantages)\<close> that broadcasting puts at \<open>[i, t]\<close> (the entry at
  \<open>[i, t]\<close> itself when \<^verbatim>\<open>weight_fn\<close> preserved the shape) and the mask's entry at
  \<open>[i, t]\<close>; where the mask is 0 and that entry of \<^verbatim>\<open>weight_fn(advantages)\<close> is finite, the
  weight is 0.
\<close>

theorem masked_weights:
  assumes ok: "result (policy_batch self tb) = Inr (obs, acts, weights)"
    and wfm: "wellformed (mask_np tb)"
    and adv: "shape (estimated_advantages self tb) = [batch_size, adv_seq_len]"
    and i: "i < batch_size" and t: "t < adv_seq_len"
  shows "item weights [i, t]
        = np_mul (bc_item (weight_fn self (final_advantages self tb)) [i, t])
            (item (mask_np tb) [i, t])
    \<and> (item (mask_np tb) [i, t] = Fin 0
        \<and> is_finite (bc_item (weight_fn self (final_advantages self tb)) [i, t])
       \<longrightarrow> item weights [i, t] = Fin 0)
    \<and> (shape (weight_fn self (final_advantages self tb)) = [batch_size, adv_seq_len]
       \<longrightarrow> bc_item (weight_fn self (final_advantages self tb)) [i, t]
           = item (weight_fn self (final_advantages self tb)) [i, t])"
proof -
  let ?W = "weight_fn self (final_advantages self tb)"
  from policy_batch_Inr [OF ok] adv obtain seq_len mask'
    where shm: "shape (mask_np tb) = [batch_size, seq_len]"
      and le: "adv_seq_len \<le> seq_len"
      and sm: "slice_axis1 (mask_np tb) adv_seq_len = Some mask'"
      and mul: "np_multiply ?W mask' = Some weights"
      and shw: "shape weights = [batch_size, adv_seq_len]"
    by auto
  have m: "min adv_seq_len seq_len = adv_seq_len" using le by simp
  have shm': "shape mask' = [batch_size, adv_seq_len]"
    using sm shm m by (auto simp: slice_axis1_def)
  have n: "i * adv_seq_len + t < prod_list (shape mask')"
  proof -
    have "i * adv_seq_len + t < i * adv_seq_len + adv_seq_len" using t by simp
    also have "\<dots> = (i + 1) * adv_seq_len" by simp
    also have "\<dots> \<le> batch_size * adv_seq_len" using i by (intro mult_le_mono1) simp
    finally show ?thesis by (simp add: shm')
  qed
  have "data weights ! (i * adv_seq_len + t)
      = np_mul (bc_item ?W (unravel (shape mask') (i * adv_seq_len + t)))
          (data mask' ! (i * adv_seq_len + t))"
    using mul _ n by (rule np_multiply_nth) (simp add: shw shm')
  then have "item weights [i, t] = np_mul (bc_item ?W [i, t]) (item mask' [i, t])"
    using t by (simp add: item_def shw shm')
  moreover have "item mask' [i, t] = item (mask_np tb) [i, t]"
    using slice_axis1_item [OF shm wfm sm, of i t "[]"] i t m by simp
  ultimately have prod: "item weights [i, t] = np_mul (bc_item ?W [i, t]) (item (mask_np tb) [i, t])"
    by simp
  have own: "bc_item ?W [i, t] = item ?W [i, t]"
    if "shape ?W = [batch_size, adv_seq_len]"
  proof -
    have "list_all2 (\<lambda>i d. i < d) [i, t] (shape ?W)"
      using that i t by simp
    then show ?thesis
      by (simp add: bc_item_def item_def bc_index_own)
  qed
  show ?thesis
    using prod own by (auto simp: np_mul_zero)
qed

theorem masked_weights_witness:
  "item \<lparr>shape = [1, 3], data = [Fin 5, Fin 4, Fin 0]\<rparr> [0, 2] = Fin 0"
  using masked_weights [where self = "example_task False (constant_estimator advantages_1x3)"
      and tb = batch_1x5 and batch_size = 1 and adv_seq_len = 3 and i = 0 and t = 2
      and obs = "\<lparr>shape = [1, 3, 2], data = [Fin 10, Fin 11, Fin 20, Fin 21, Fin 30, Fin 31]\<rparr>"
      and acts = "\<lparr>shape = [1, 3], data = [Fin 1, Fin 2, Fin 3]\<rparr>"
      and weights = "\<lparr>shape = [1, 3], data = [Fin 5, Fin 4, Fin 0]\<rparr>"]
  by (simp add: eval_defs upt_rec)

text \<open>
  C1 as stated fails for advantages whose spread is of the size of epsilon. With the
  default epsilon \<open>1e-5\<close> and the advantages \<open>[[0, 2e-5]]\<close> (standard deviation
  \<open>1e-5\<close>, not zero) the normalized advantages are \<open>[[-1/2, 1/2]]\<close>: their standard
  deviation is \<open>1/2\<close>, which is not within \<open>1e-5\<close> of 1.
\<close>

theorem normalized_std_half_counterexample:
  "result (policy_batch (example_task True rewards_copy) batch_1x2)
     = Inr (\<lparr>shape = [1, 2], data = [Fin 5, Fin 6]\<rparr>,
            \<lparr>shape = [1, 2], data = [Fin 0, Fin 1]\<rparr>,
            \<lparr>shape = [1, 2], data = [Fin (- (1 / 2)), Fin (1 / 2)]\<rparr>)
   \<and> estimated_advantages (example_task True rewards_copy) batch_1x2
     = \<lparr>shape = [1, 2], data = [Fin 0, Fin (1 / 50000)]\<rparr>
   \<and> np_std \<lparr>shape = [1, 2], data = [Fin 0, Fin (1 / 50000)]\<rparr> = Fin (1 / 100000)
   \<and> final_advantages (example_task True rewards_copy) batch_1x2
     = \<lparr>shape = [1, 2], data = [Fin (- (1 / 2)), Fin (1 / 2)]\<rparr>
   \<and> np_std \<lparr>shape = [1, 2], data = [Fin (- (1 / 2)), Fin (1 / 2)]\<rparr> = Fin (1 / 2)
   \<and> \<not> \<bar>(1 / 2 :: real) - 1\<bar> \<le> 1 / 100000"
  by (simp add: eval_defs upt_rec sqrt_tiny sqrt_quarter)

text \<open>
  C1, amended. When \<^verbatim>\<open>policy_batch\<close> returns with \<open>advantage_normalization = True\<close>, a
  positive epsilon and finite advantages \<open>xs\<close> (all entries of the estimator's result,
  batch and time flattened), the array that \<^verbatim>\<open>weight_fn\<close> receives holds
  \<open>(x - mean xs) / (std xs + epsilon)\<close> for every entry \<open>x\<close>, with the one scalar mean and
  the one population standard deviation of all entries, and the returned weights are
  \<^verbatim>\<open>weight_fn\<close> of that array times the trimmed mask. In exact arithmetic its mean is 0
  and its standard deviation is \<open>std xs / (std xs + epsilon)\<close>, which is below 1 by
  \<open>epsilon / (std xs + epsilon)\<close>: within \<open>epsilon\<close> of 1 when \<open>std xs + epsilon \<ge> 1\<close>.
\<close>

theorem advantages_normalized_globally:
  assumes ok: "result (policy_batch self tb) = Inr (obs, acts, weights)"
    and norm: "advantage_normalization self"
    and eps: "0 < advantage_normalization_epsilon self"
    and fin: "data (estimated_advantages self tb) = map Fin xs"
    and ne: "xs \<noteq> []"
  shows "final_advantages self tb
      = (estimated_advantages self tb)
          \<lparr>data := map (\<lambda>x. Fin ((x - mean_of xs)
                     / (std_of xs + advantage_normalization_epsilon self))) xs\<rparr>
    \<and> (\<exists>mask'. slice_axis1 (mask_np tb) (shape (estimated_advantages self tb) ! 1) = Some mask'
         \<and> np_multiply (weight_fn self (final_advantages self tb)) mask' = Some weights)
    \<and> np_mean (final_advantages self tb) = Fin 0
    \<and> np_std (final_advantages self tb)
        = Fin (std_of xs / (std_of xs + advantage_normalization_epsilon self))
    \<and> 1 - std_of xs / (std_of xs + advantage_normalization_epsilon self)
        = advantage_normalization_epsilon self
          / (std_of xs + advantage_normalization_epsilon self)
    \<and> (1 \<le> std_of xs + advantage_normalization_epsilon self
       \<longrightarrow> \<bar>std_of xs / (std_of xs + advantage_normalization_epsilon self) - 1\<bar>
           \<le> advantage_normalization_epsilon self)"
proof -
  let ?eps = "advantage_normalization_epsilon self"
  let ?zs = "map (\<lambda>x. (x - mean_of xs) / (std_of xs + ?eps)) xs"
  have d: "0 < std_of xs + ?eps" using std_of_nonneg [of xs] eps by linarith
  have fa: "final_advantages self tb
      = (estimated_advantages self tb)\<lparr>data := map (\<lambda>x. Fin ((x - mean_of xs)
                     / (std_of xs + ?eps))) xs\<rparr>"
    using norm by (simp add: final_advantages_def normalize_finite [OF fin ne eps])
  then have dz: "data (final_advantages self tb) = map Fin ?zs"
    by (simp add: comp_def)
  have zne: "?zs \<noteq> []" using ne by simp
  have m: "np_mean (final_advantages self tb) = Fin 0"
    using np_mean_finite [OF dz zne] normalized_mean_std(1) [OF ne eps] by simp
  have s: "np_std (final_advantages self tb) = Fin (std_of xs / (std_of xs + ?eps))"
    using np_std_finite [OF dz zne] normalized_mean_std(2) [OF ne eps] by simp
  have gap: "1 - std_of xs / (std_of xs + ?eps) = ?eps / (std_of xs + ?eps)"
    using d by (simp add: field_simps)
  have tol: "\<bar>std_of xs / (std_of xs + ?eps) - 1\<bar> \<le> ?eps"
    if "1 \<le> std_of xs + ?eps"
  proof -
    have "?eps / (std_of xs + ?eps) \<le> ?eps / 1"
      using that eps by (intro divide_left_mono) simp_all
    moreover have "0 \<le> ?eps / (std_of xs + ?eps)"
      using eps d by simp
    ultimately show ?thesis using gap by (simp add: abs_if)
  qed
  from policy_batch_Inr [OF ok] obtain batch_size adv_seq_len mask'
    where "shape (estimated_advantages self tb) = [batch_size, adv_seq_len]"
      and "slice_axis1 (mask_np tb) adv_seq_len = Some mask'"
      and "np_multiply (weight_fn self (final_advantages self tb)) mask' = Some weights"
    by blast
  then have link: "\<exists>mask'. slice_axis1 (mask_np tb) (shape (estimated_advantages self tb) ! 1)
        = Some mask'
      \<and> np_multiply (weight_fn self (final_advantages self tb)) mask' = Some weights"
    by simp
  show ?thesis
    using fa link m s gap tol by blast
qed

theorem advantages_normalized_globally_witness:
  "np_mean (final_advantages (example_task True rewards_copy) batch_1x2) = Fin 0
   \<and> np_std (final_advantages (example_task True rewards_copy) batch_1x2)
     = Fin (std_of [0, 1 / 50000] / (std_of [0, 1 / 50000] + 1 / 100000))"
proof -
  have r: "result (policy_batch (example_task True rewards_copy) batch_1x2)
     = Inr (\<lparr>shape = [1, 2], data = [Fin 5, Fin 6]\<rparr>,
            \<lparr>shape = [1, 2], data = [Fin 0, Fin 1]\<rparr>,
            \<lparr>shape = [1, 2], data = [Fin (- (1 / 2)), Fin (1 / 2)]\<rparr>)"
    by (simp add: eval_defs upt_rec sqrt_tiny)
  have n: "advantage_normalization (example_task True rewards_copy)"
    and e: "0 < advantage_normalization_epsilon (example_task True rewards_copy)"
    and ev: "advantage_normalization_epsilon (example_task True rewards_copy) = 1 / 100000"
    by (simp_all add: example_task_def)
  have d: "data (estimated_advantages (example_task True rewards_copy) batch_1x2)
      = map Fin [0, 1 / 50000]"
    by (simp add: estimated_advantages_def estimator_result_def example_task_def
        rewards_copy_def deref_def batch_1x2_def)
  have ne: "[0, 1 / 50000 :: real] \<noteq> []" by simp
  show ?thesis
    using advantages_normalized_globally [OF r n e d ne, unfolded ev] by blast
qed

end
